theory Spec2Isabelle
  imports Main
begin

section \<open>Text helpers shared by the scripts\<close>

text \<open>
  The scripts build identifiers with Python's \<open>str\<close>, with \<open>str.zfill\<close> (Polars and
  pandas) and with the format specification \<open>03d\<close>. A string is a list of characters.
\<close>

definition digit_char :: "nat \<Rightarrow> char" where
  "digit_char n = ''0123456789'' ! n"

definition is_digit :: "char \<Rightarrow> bool" where
  "is_digit c = (c \<in> set ''0123456789'')"

definition digit_val :: "char \<Rightarrow> nat" where
  "digit_val c = of_char c - 48"

text \<open>\<open>str(n)\<close> for a natural number and for an integer (decimal, no leading zeros).\<close>

fun str_nat :: "nat \<Rightarrow> string" where
  "str_nat n = (if n < 10 then [digit_char n] else str_nat (n div 10) @ [digit_char (n mod 10)])"

declare str_nat.simps [simp del]

definition str_int :: "int \<Rightarrow> string" where
  "str_int i = (if i < 0 then CHR ''-'' # str_nat (nat (- i)) else str_nat (nat i))"

text \<open>The value of a run of decimal digits, most significant digit first.\<close>

definition nat_of_digits :: "string \<Rightarrow> nat" where
  "nat_of_digits s = foldl (\<lambda>a c. 10 * a + digit_val c) 0 s"


text \<open>
  Polars' \<open>str.zfill\<close> (used by \<open>create_precinct_id.py\<close>): zeros are added at the start up
  to the given length; after a leading minus sign the zeros go behind the sign.
\<close>

definition zfill :: "nat \<Rightarrow> string \<Rightarrow> string" where
  "zfill width s =
     (if width \<le> length s then s
      else if s \<noteq> [] \<and> hd s = CHR ''-''
        then CHR ''-'' # replicate (width - length s) CHR ''0'' @ tl s
      else replicate (width - length s) CHR ''0'' @ s)"

text \<open>
  pandas' \<open>Series.str.zfill\<close> (used by \<open>import_geometries.py\<close> and
  \<open>check_geojson_dups.py\<close>): a plain left pad with zeros, no handling of a sign.
\<close>

definition pd_zfill :: "nat \<Rightarrow> string \<Rightarrow> string" where
  "pd_zfill width s = replicate (width - length s) CHR ''0'' @ s"

text \<open>
  The format \<open>f"{next_id:03d}"\<close> of a counter that starts at 1 and only grows: at least
  three digits, padded with zeros.
\<close>

definition format_03d :: "nat \<Rightarrow> string" where
  "format_03d n = replicate (3 - length (str_nat n)) CHR ''0'' @ str_nat n"

section \<open>\<open>create_precinct_id.py\<close>: the identifier of a result row\<close>

text \<open>
  \<open>process_csv\<close> sets \<open>precinct_id\<close> to the ward as two digits followed by the precinct as
  three digits when both cells are present, and to a null otherwise. The arguments are the
  cells after \<open>cast(pl.Int32)\<close>; \<open>None\<close> is a null.
\<close>

definition precinct_id_expr :: "int option \<Rightarrow> int option \<Rightarrow> string option" where
  "precinct_id_expr ward_cell precinct_cell =
     (case ward_cell of
        None \<Rightarrow> None
      | Some w \<Rightarrow>
          (case precinct_cell of
             None \<Rightarrow> None
           | Some p \<Rightarrow> Some (zfill 2 (str_int w) @ zfill 3 (str_int p))))"

text \<open>
  Reading an identifier back by its fixed widths: the first two characters are the ward,
  the last three the precinct. No script does this; the function states what a five
  character identifier denotes.
\<close>

definition decompose_id :: "string \<Rightarrow> nat \<times> nat" where
  "decompose_id s = (nat_of_digits (take 2 s), nat_of_digits (drop (length s - 3) s))"

section \<open>\<open>import_geometries.py\<close>: the boundary importer\<close>

subsection \<open>The frame read from a GeoJSON file\<close>

text \<open>
  A row of the GeoDataFrame carries its property cells and its geometry. The importer only
  ever reads a property through \<open>astype(str)\<close>, so \<open>attrs r c\<close> is the text that
  \<open>astype(str)\<close> gives for the cell of column \<open>c\<close>; the geometry is its WKT text.
\<close>

record geo_row =
  attrs :: "string \<Rightarrow> string"
  geometry_wkt :: string


definition pid :: "geo_row \<Rightarrow> string" where
  "pid r = attrs r ''precinct_id''"

definition set_pid :: "string \<Rightarrow> geo_row \<Rightarrow> geo_row" where
  "set_pid v r = r\<lparr>attrs := (attrs r)(''precinct_id'' := v)\<rparr>"

subsection \<open>Finding the identifier column\<close>

definition possible_fields :: "string list" where
  "possible_fields = [''precinct_id'', ''PRECINCT_ID'', ''precinct'', ''PRECINCT'', ''ID'']"

text \<open>The loop over \<open>possible_fields\<close> that stops at the first field present.\<close>

definition precinct_id_field :: "string list \<Rightarrow> string option" where
  "precinct_id_field cols = find (\<lambda>field. field \<in> set cols) possible_fields"

datatype id_source = Ward_And_Precinct | Direct_Field string

datatype import_error = ValueError

text \<open>The \<open>if\<close> / \<open>elif\<close> / \<open>else\<close> that follows the loop, in the source's order.\<close>

definition id_source_of :: "string list \<Rightarrow> import_error + id_source" where
  "id_source_of cols =
     (if precinct_id_field cols = None \<and> ''ward'' \<in> set cols \<and> ''precinct'' \<in> set cols
        then Inr Ward_And_Precinct
      else (case precinct_id_field cols of
              Some field \<Rightarrow> Inr (Direct_Field field)
            | None \<Rightarrow> Inl ValueError))"

definition combine_ward_precinct :: "string \<Rightarrow> string \<Rightarrow> string" where
  "combine_ward_precinct ward_text precinct_text = pd_zfill 2 ward_text @ pd_zfill 3 precinct_text"


subsection \<open>Width normalisation\<close>





subsection \<open>Repair of empty, zero and duplicate identifiers\<close>

definition gen_id :: "nat \<Rightarrow> string" where
  "gen_id n = ''GEN'' @ format_03d n"

definition zero_id :: "nat \<Rightarrow> string" where
  "zero_id n = ''ZERO'' @ format_03d n"

text \<open>
  The two masks are computed before anything is changed. After \<open>astype(str)\<close> no
  identifier is missing, so \<open>isna()\<close> is false on every row and \<open>empty_ids\<close> is the
  comparison with the empty string.
\<close>

definition empty_ids :: "string list \<Rightarrow> bool list" where
  "empty_ids ids = map (\<lambda>s. s = []) ids"

definition zero_ids :: "string list \<Rightarrow> bool list" where
  "zero_ids ids = map (\<lambda>s. s = ''0'' \<or> s = ''00000'') ids"

text \<open>
  The loop \<open>for idx in gdf[mask].index\<close>: the rows picked by the mask, in row order, get
  the identifiers made from \<open>next_id\<close>, \<open>next_id + 1\<close>, ...
\<close>

fun assign_generated :: "(nat \<Rightarrow> string) \<Rightarrow> nat \<Rightarrow> bool list \<Rightarrow> string list \<Rightarrow> string list" where
  "assign_generated mk next_id (m # ms) (x # ids) =
     (if m then mk next_id # assign_generated mk (Suc next_id) ms ids
      else x # assign_generated mk next_id ms ids)"
| "assign_generated mk next_id ms ids = ids"

definition repair_empty_zero :: "string list \<Rightarrow> string list" where
  "repair_empty_zero ids =
     (let empty_mask = empty_ids ids;
          zero_mask = zero_ids ids;
          ids1 = (if list_ex id empty_mask then assign_generated gen_id 1 empty_mask ids else ids);
          ids2 = (if list_ex id zero_mask then assign_generated zero_id 1 zero_mask ids1 else ids1)
      in ids2)"

text \<open>\<open>Series.duplicated()\<close>: true on a row whose value occurs on an earlier row.\<close>

fun duplicated_from :: "string list \<Rightarrow> string list \<Rightarrow> bool list" where
  "duplicated_from seen [] = []"
| "duplicated_from seen (x # xs) = (x \<in> set seen) # duplicated_from (x # seen) xs"




text \<open>The frame after the two loops, before duplicates are looked for.\<close>

definition repaired_rows :: "geo_row list \<Rightarrow> geo_row list" where
  "repaired_rows rs = map (\<lambda>(v, r). set_pid v r) (zip (repair_empty_zero (map pid rs)) rs)"


subsection \<open>The table \<open>precinct_geometries\<close> and one import\<close>

record precinct_geometry =
  precinct_geometry_id :: int
  precinct_id :: string
  valid_from_year :: int
  valid_to_year :: "int option"
  geometry :: string


text \<open>The rows built by the \<open>enumerate\<close> loop: the \<open>i\<close>-th row gets \<open>start_id + i\<close>.\<close>

fun build_rows :: "int \<Rightarrow> int \<Rightarrow> int option \<Rightarrow> geo_row list \<Rightarrow> precinct_geometry list" where
  "build_rows next_id from_year to_year [] = []"
| "build_rows next_id from_year to_year (r # rs) =
     \<lparr>precinct_geometry_id = next_id, precinct_id = pid r, valid_from_year = from_year,
      valid_to_year = to_year, geometry = geometry_wkt r\<rparr>
     # build_rows (next_id + 1) from_year to_year rs"



subsection \<open>A frame with empty, zero and duplicate identifiers\<close>


subsection \<open>What a boundary version holds besides its surrogate key\<close>





section \<open>\<open>import_elections.py\<close>: reshaping result files\<close>

subsection \<open>Frames\<close>

text \<open>
  A cell of a Polars frame is a null, an integer, a float or a string. A float is carried
  as the decimal text that names it (the text that its cast to \<open>Utf8\<close> prints and that a
  cast to \<open>Float64\<close> reads); the script only ever casts floats to text and back. A row
  maps column names to cells, a frame is the list of its column names and its rows.
\<close>

datatype cell = Null | IntV int | FloatV string | StrV string

type_synonym row = "string \<rightharpoonup> cell"

record df =
  columns :: "string list"
  rows :: "row list"

definition get :: "row \<Rightarrow> string \<Rightarrow> cell" where
  "get r c = (case r c of Some v \<Rightarrow> v | None \<Rightarrow> Null)"

definition column :: "string \<Rightarrow> df \<Rightarrow> cell list" where
  "column c d = map (\<lambda>r. get r c) (rows d)"

text \<open>
  The exceptions that the Polars calls and Python itself raise inside \<open>process_csv_file\<close>,
  and the five places where the function gives up on a file (it logs and returns \<open>None\<close>).
\<close>

datatype py_exception =
    ColumnNotFoundError string
  | ShapeError
  | ComputeError
  | UnboundLocalError string

datatype failure =
    EmptyDataFrame
  | MissingPrecinctId
  | NoOptionColumns
  | MeltFailed py_exception
  | ProcessingFailed py_exception

subsection \<open>The Polars operations the script calls\<close>

text \<open>\<open>df.select(names)\<close>: a missing column raises.\<close>

definition select :: "string list \<Rightarrow> df \<Rightarrow> py_exception + df" where
  "select names d =
     (case find (\<lambda>c. c \<notin> set (columns d)) names of
        Some c \<Rightarrow> Inl (ColumnNotFoundError c)
      | None \<Rightarrow> Inr \<lparr>columns = names, rows = map (\<lambda>r. r |` set names) (rows d)\<rparr>)"

text \<open>
  \<open>df.with_columns([e.alias(name), ...])\<close> with literals and column references. Every
  expression is evaluated on the frame the call is made on; a reference to a column that
  this frame does not have raises. A new name is appended, an existing one is replaced.
\<close>

datatype expr = Lit cell | Col string

definition set_column :: "string \<Rightarrow> cell list \<Rightarrow> df \<Rightarrow> df" where
  "set_column name vals d =
     \<lparr>columns = (if name \<in> set (columns d) then columns d else columns d @ [name]),
      rows = map (\<lambda>(v, r). r(name \<mapsto> v)) (zip vals (rows d))\<rparr>"

fun with_columns_from :: "df \<Rightarrow> (expr \<times> string) list \<Rightarrow> df \<Rightarrow> py_exception + df" where
  "with_columns_from src [] acc = Inr acc"
| "with_columns_from src ((Lit v, name) # es) acc =
     with_columns_from src es (set_column name (replicate (length (rows src)) v) acc)"
| "with_columns_from src ((Col c, name) # es) acc =
     (if c \<in> set (columns src)
        then with_columns_from src es (set_column name (column c src) acc)
      else Inl (ColumnNotFoundError c))"

definition with_columns :: "(expr \<times> string) list \<Rightarrow> df \<Rightarrow> py_exception + df" where
  "with_columns es d = with_columns_from d es d"

text \<open>\<open>pl.concat([a, b])\<close>, vertical: the two frames must have the same columns.\<close>

definition pl_concat :: "df \<Rightarrow> df \<Rightarrow> py_exception + df" where
  "pl_concat a b =
     (if columns a = columns b then Inr \<lparr>columns = columns a, rows = rows a @ rows b\<rparr>
      else Inl ShapeError)"

text \<open>
  \<open>df.melt(id_vars, value_vars, variable_name, value_name)\<close>: for each value column in
  turn, all rows of the frame, keeping the id columns.
\<close>

definition melt :: "string list \<Rightarrow> string list \<Rightarrow> string \<Rightarrow> string \<Rightarrow> df \<Rightarrow> py_exception + df" where
  "melt id_vars value_vars variable_name value_name d =
     (case find (\<lambda>c. c \<notin> set (columns d)) (id_vars @ value_vars) of
        Some c \<Rightarrow> Inl (ColumnNotFoundError c)
      | None \<Rightarrow>
          Inr \<lparr>columns = id_vars @ [variable_name, value_name],
               rows = concat (map (\<lambda>v. map (\<lambda>r. (r |` set id_vars)
                                                    (variable_name \<mapsto> StrV v, value_name \<mapsto> get r v))
                                            (rows d))
                                  value_vars)\<rparr>)"

text \<open>
  \<open>left.join(right, on="precinct_id")\<close>, an inner join: for each row of the left frame,
  in order, one row per row of the right frame with the same key; a null key matches
  nothing. The right frame has no column in common with the left one but the key.
\<close>

definition join_on_precinct_id :: "df \<Rightarrow> df \<Rightarrow> df" where
  "join_on_precinct_id left right =
     \<lparr>columns = columns left @ filter (\<lambda>c. c \<noteq> ''precinct_id'') (columns right),
      rows = concat (map (\<lambda>l. map (\<lambda>r. l ++ (r |` (- {''precinct_id''})))
                                   (filter (\<lambda>r. get l ''precinct_id'' \<noteq> Null
                                                \<and> get r ''precinct_id'' = get l ''precinct_id'')
                                           (rows right)))
                        (rows left))\<rparr>"

text \<open>
  \<open>df.with_columns(pl.when(mask).then(series).otherwise(pl.col(name)).alias(name))\<close>
  with a mask of the frame's height: a series of the same height is used row by row, a
  series of length one is repeated, any other length raises.
\<close>

definition when_then_otherwise :: "bool list \<Rightarrow> cell list \<Rightarrow> string \<Rightarrow> df \<Rightarrow> py_exception + df" where
  "when_then_otherwise ms series name d =
     (let n = length (rows d) in
      if length series = n \<or> length series = 1 then
        (let vals = (if length series = n then series else replicate n (hd series))
         in Inr (set_column name
                   (map (\<lambda>(m, v, r). if m then v else get r name) (zip ms (zip vals (rows d)))) d))
      else Inl ShapeError)"

text \<open>\<open>df.rename({old: new})\<close> for a column the frame has.\<close>

definition rename :: "string \<Rightarrow> string \<Rightarrow> df \<Rightarrow> df" where
  "rename old new d =
     \<lparr>columns = map (\<lambda>c. if c = old then new else c) (columns d),
      rows = map (\<lambda>r. (r(old := None))(new \<mapsto> get r old)) (rows d)\<rparr>"

subsection \<open>Numeric coercion\<close>

definition cast_utf8 :: "cell \<Rightarrow> string option" where
  "cast_utf8 v = (case v of Null \<Rightarrow> None | IntV n \<Rightarrow> Some (str_int n)
                  | FloatV t \<Rightarrow> Some t | StrV s \<Rightarrow> Some s)"

text \<open>\<open>str.extract(r"(\d+)", 1)\<close>: the first maximal run of digits, a null without one.\<close>

definition extract_digits :: "string \<Rightarrow> string option" where
  "extract_digits s =
     (let t = dropWhile (\<lambda>c. \<not> is_digit c) s
      in if t = [] then None else Some (takeWhile is_digit t))"

text \<open>\<open>str.extract(r"(\d+\.?\d*)", 1)\<close>: the first run of digits, a point if one follows,
  and the digits behind the point.\<close>

definition extract_decimal :: "string \<Rightarrow> string option" where
  "extract_decimal s =
     (let t = dropWhile (\<lambda>c. \<not> is_digit c) s;
          whole = takeWhile is_digit t;
          rest = dropWhile is_digit t
      in if t = [] then None
         else if rest \<noteq> [] \<and> hd rest = CHR ''.''
           then Some (whole @ CHR ''.'' # takeWhile is_digit (tl rest))
         else Some whole)"

text \<open>
  The votes of a cell (lines 231 to 248): a null counts as 0, the cell is cast to text, the
  first run of digits is taken (\<open>0\<close> without one) and cast to \<open>Int32\<close>; the strict cast
  raises beyond the largest 32 bit integer.
\<close>

definition votes_digits :: "cell \<Rightarrow> string" where
  "votes_digits v =
     (let filled = (if v = Null then IntV 0 else v)
      in case cast_utf8 filled of
           None \<Rightarrow> ''0''
         | Some s \<Rightarrow> (case extract_digits s of None \<Rightarrow> ''0'' | Some ds \<Rightarrow> ds))"

definition coerce_votes :: "cell \<Rightarrow> py_exception + int" where
  "coerce_votes v =
     (if int (nat_of_digits (votes_digits v)) \<le> 2147483647
        then Inr (int (nat_of_digits (votes_digits v)))
      else Inl ComputeError)"

text \<open>
  The percentage of a cell (lines 251 to 265): a null counts as \<open>0.0\<close>, the cell is cast to
  text, the first decimal number is taken (\<open>0.0\<close> without one) and cast to \<open>Float64\<close>.
\<close>

definition coerce_percent :: "cell \<Rightarrow> string" where
  "coerce_percent v =
     (let filled = (if v = Null then FloatV ''0.0'' else v)
      in case cast_utf8 filled of
           None \<Rightarrow> ''0.0''
         | Some s \<Rightarrow> (case extract_decimal s of None \<Rightarrow> ''0.0'' | Some t \<Rightarrow> t))"

subsection \<open>The rows \<open>process_csv_file\<close> returns\<close>

text \<open>
  The thirteen standard columns. The three measures have the types the coercion gives
  them (\<open>Int32\<close>, \<open>Int32\<close>, \<open>Float64\<close>), \<open>None\<close> being a null; the other columns carry
  cells of the file or of the metadata.
\<close>

record result_row =
  result_id :: cell
  year :: cell
  election_date :: cell
  election_id :: cell
  contest_id :: cell
  contest_name :: cell
  precinct_id_cell :: cell
  ward :: cell
  precinct :: cell
  total_votes :: "int option"
  option_name :: cell
  option_votes :: "int option"
  option_percent :: "string option"

record election_context =
  ctx_year :: cell
  ctx_election_date :: cell
  ctx_election_id :: cell
  ctx_contest_id :: cell
  ctx_contest_name :: cell

text \<open>
  The local variables \<open>ward_col\<close>, \<open>precinct_col\<close> and \<open>total_col\<close> are assigned in the
  branch for ordinary result files only. \<open>None\<close> is a variable that was never assigned;
  \<open>Some None\<close> is the Python value \<open>None\<close>.
\<close>

record locals =
  ward_col :: "string option option"
  precinct_col :: "string option option"
  total_col :: "string option option"

definition read_local :: "string \<Rightarrow> string option option \<Rightarrow> py_exception + string option" where
  "read_local name v = (case v of None \<Rightarrow> Inl (UnboundLocalError name) | Some x \<Rightarrow> Inr x)"

definition then_do :: "'e + 'a \<Rightarrow> ('a \<Rightarrow> 'e + 'b) \<Rightarrow> 'e + 'b" where
  "then_do m f = (case m of Inl e \<Rightarrow> Inl e | Inr x \<Rightarrow> f x)"

text \<open>Applying a coercion that may raise to every row, in order.\<close>

fun map_rows :: "('a \<Rightarrow> 'e + 'b) \<Rightarrow> 'a list \<Rightarrow> 'e + 'b list" where
  "map_rows f [] = Inr []"
| "map_rows f (x # xs) =
     (case f x of
        Inl e \<Rightarrow> Inl e
      | Inr y \<Rightarrow> (case map_rows f xs of Inl e \<Rightarrow> Inl e | Inr ys \<Rightarrow> Inr (y # ys)))"

subsection \<open>\<open>process_csv_file\<close>\<close>

text \<open>The branch for registration and turnout files (lines 136 to 161).\<close>

definition turnout_frames :: "df \<Rightarrow> py_exception + df" where
  "turnout_frames d =
     then_do (select [''precinct_id'', ''ward'', ''precinct'', ''registered''] d) (\<lambda>registered_df.
     then_do (with_columns
                [(Lit (StrV ''registered''), ''option_name''),
                 (Col ''registered'', ''option_votes''),
                 (Lit Null, ''option_percent''),
                 (Lit Null, ''total_votes'')] registered_df) (\<lambda>registered_df.
     then_do (select [''precinct_id'', ''ward'', ''precinct'', ''ballots''] d) (\<lambda>ballots_df.
     then_do (with_columns
                [(Lit (StrV ''ballots''), ''option_name''),
                 (Col ''ballots'', ''option_votes''),
                 (Col ''turnout'', ''option_percent''),
                 (Lit Null, ''total_votes'')] ballots_df) (\<lambda>ballots_df.
     pl_concat registered_df ballots_df))))"

text \<open>The option columns of an ordinary result file (lines 172 to 174).\<close>

definition endswith :: "string \<Rightarrow> string \<Rightarrow> bool" where
  "endswith s suffix = (length suffix \<le> length s \<and> drop (length s - length suffix) s = suffix)"

definition reserved_columns :: "string list" where
  "reserved_columns =
     [''precinct_id'', ''ward'', ''precinct'', ''total'', ''registered'', ''ballots'', ''turnout'']"

definition option_cols_of :: "string list \<Rightarrow> string list" where
  "option_cols_of cols =
     filter (\<lambda>c. c \<notin> set reserved_columns \<and> \<not> endswith c ''Percent'') cols"

definition id_vars_of :: "string list \<Rightarrow> string list" where
  "id_vars_of cols =
     [''precinct_id'']
     @ (if ''ward'' \<in> set cols then [''ward''] else [])
     @ (if ''precinct'' \<in> set cols then [''precinct''] else [])
     @ (if ''total'' \<in> set cols then [''total''] else [])"

text \<open>
  The loop over the options that attaches the percentages (lines 201 to 214). For an
  option with a column \<open><option> Percent\<close>, the rows of that option take their value
  from the percent column of the join of the melted frame with the file's
  \<open>precinct_id\<close> and percent columns, row by row.
\<close>

fun add_percentages :: "df \<Rightarrow> string list \<Rightarrow> df \<Rightarrow> py_exception + df" where
  "add_percentages d [] results_df = Inr results_df"
| "add_percentages d (option # options) results_df =
     (let percent_col = option @ '' Percent'' in
      if percent_col \<in> set (columns d) then
        (let ms = map (\<lambda>r. get r ''option_name'' = StrV option) (rows results_df) in
         if list_ex id ms then
           then_do (select [''precinct_id'', percent_col] d) (\<lambda>percent_df.
           then_do (when_then_otherwise ms
                      (column percent_col (join_on_precinct_id results_df percent_df))
                      ''option_percent'' results_df) (\<lambda>results_df.
           add_percentages d options results_df))
         else add_percentages d options results_df)
      else add_percentages d options results_df)"

text \<open>
  Lines 216 to 291, common to both branches: the \<open>total\<close> column becomes \<open>total_votes\<close>
  (a null column without one), missing \<open>ward\<close> and \<open>precinct\<close> columns are added as
  nulls, the three measures are coerced, the metadata columns that the frame lacks are
  filled from the caller's values, and the thirteen standard columns are selected.
\<close>

definition meta_cell :: "df \<Rightarrow> row \<Rightarrow> string \<Rightarrow> cell \<Rightarrow> cell" where
  "meta_cell d r name v = (if name \<in> set (columns d) then get r name else v)"

definition null_column :: "string \<Rightarrow> df \<Rightarrow> df" where
  "null_column name d = set_column name (replicate (length (rows d)) Null) d"

definition standard_row ::
  "election_context \<Rightarrow> df \<Rightarrow> (int \<times> int \<times> row) \<Rightarrow> result_row" where
  "standard_row ctx d x =
     (case x of (votes, tot, r) \<Rightarrow>
        \<lparr>result_id = meta_cell d r ''result_id'' (IntV (- 1)),
         year = meta_cell d r ''year'' (ctx_year ctx),
         election_date = meta_cell d r ''election_date'' (ctx_election_date ctx),
         election_id = meta_cell d r ''election_id'' (ctx_election_id ctx),
         contest_id = meta_cell d r ''contest_id'' (ctx_contest_id ctx),
         contest_name = meta_cell d r ''contest_name'' (ctx_contest_name ctx),
         precinct_id_cell = get r ''precinct_id'',
         ward = get r ''ward'',
         precinct = get r ''precinct'',
         total_votes = Some tot,
         option_name = get r ''option_name'',
         option_votes = Some votes,
         option_percent = Some (coerce_percent (get r ''option_percent''))\<rparr>)"

definition finish_file :: "locals \<Rightarrow> election_context \<Rightarrow> df \<Rightarrow> py_exception + result_row list" where
  "finish_file vars ctx results_df =
     then_do (read_local ''total_col'' (total_col vars)) (\<lambda>total_name.
     then_do (read_local ''ward_col'' (ward_col vars)) (\<lambda>ward_name.
     then_do (read_local ''precinct_col'' (precinct_col vars)) (\<lambda>precinct_name.
     (let d1 = (case total_name of
                  Some t \<Rightarrow> rename t ''total_votes'' results_df
                | None \<Rightarrow> null_column ''total_votes'' results_df);
          d2 = (if ward_name = None then null_column ''ward'' d1 else d1);
          d3 = (if precinct_name = None then null_column ''precinct'' d2 else d2)
      in then_do (map_rows (\<lambda>r. coerce_votes (get r ''option_votes'')) (rows d3)) (\<lambda>votes.
         then_do (map_rows (\<lambda>r. coerce_votes (get r ''total_votes'')) (rows d3)) (\<lambda>totals.
         Inr (map (standard_row ctx d3) (zip votes (zip totals (rows d3))))))))))"

definition lift_failure :: "py_exception + 'a \<Rightarrow> failure + 'a" where
  "lift_failure m = (case m of Inl e \<Rightarrow> Inl (ProcessingFailed e) | Inr x \<Rightarrow> Inr x)"

text \<open>
  The function on the frame read from the file. \<open>Inl\<close> is a \<open>return None\<close>: the empty
  frame (line 109), the missing \<open>precinct_id\<close> (line 114), no option column (line 178), a
  failed melt (line 196), or an exception caught by the outer handler (line 295).
\<close>

definition process_csv_file :: "df \<Rightarrow> election_context \<Rightarrow> failure + result_row list" where
  "process_csv_file d ctx =
     (if rows d = [] then Inl EmptyDataFrame
      else if ''precinct_id'' \<notin> set (columns d) then Inl MissingPrecinctId
      else if ''registered'' \<in> set (columns d) \<and> ''turnout'' \<in> set (columns d) then
        lift_failure
          (then_do (turnout_frames d)
             (finish_file \<lparr>ward_col = None, precinct_col = None, total_col = None\<rparr> ctx))
      else
        (let vars = \<lparr>ward_col = Some (if ''ward'' \<in> set (columns d) then Some ''ward'' else None),
                     precinct_col = Some (if ''precinct'' \<in> set (columns d) then Some ''precinct'' else None),
                     total_col = Some (if ''total'' \<in> set (columns d) then Some ''total'' else None)\<rparr>;
             option_cols = option_cols_of (columns d)
         in if option_cols = [] then Inl NoOptionColumns
            else
              (case melt (id_vars_of (columns d)) option_cols ''option_name'' ''option_votes'' d of
                 Inl e \<Rightarrow> Inl (MeltFailed e)
               | Inr melted \<Rightarrow>
                   lift_failure
                     (then_do (with_columns [(Lit Null, ''option_percent'')] melted) (\<lambda>results_df.
                      then_do (add_percentages d option_cols results_df)
                        (finish_file vars ctx))))))"

subsection \<open>The two files of the specification's examples\<close>

definition example_context :: election_context where
  "example_context =
     \<lparr>ctx_year = IntV 2020, ctx_election_date = StrV ''2020-11-03'', ctx_election_id = IntV 7,
      ctx_contest_id = IntV 3, ctx_contest_name = StrV ''Mayor''\<rparr>"

definition turnout_example :: df where
  "turnout_example =
     \<lparr>columns = [''precinct_id'', ''ward'', ''precinct'', ''registered'', ''ballots'', ''turnout''],
      rows = [[''precinct_id'' \<mapsto> StrV ''01001'', ''ward'' \<mapsto> IntV 1, ''precinct'' \<mapsto> IntV 1,
               ''registered'' \<mapsto> IntV 1000, ''ballots'' \<mapsto> IntV 400,
               ''turnout'' \<mapsto> FloatV ''40.0'']]\<rparr>"



subsection \<open>\<open>save_results_to_duckdb\<close> and the sequence table\<close>

text \<open>
  The database as the script uses it: the table \<open>election_results\<close> and the table
  \<open>sequence_values\<close>, which maps a sequence name to its \<open>next_value\<close>. Both \<open>result_id\<close>
  and \<open>next_value\<close> are 32 bit \<open>INTEGER\<close> columns.
\<close>

record db =
  election_results :: "result_row list"
  sequence_values :: "string \<rightharpoonup> int"

definition in_int32 :: "int \<Rightarrow> bool" where
  "in_int32 n = (- 2147483648 \<le> n \<and> n \<le> 2147483647)"

text \<open>\<open>UPDATE sequence_values SET next_value = ? WHERE name = 'result_id'\<close>.\<close>

definition update_sequence :: "int \<Rightarrow> db \<Rightarrow> db" where
  "update_sequence v con =
     (if sequence_values con ''result_id'' = None then con
      else con\<lparr>sequence_values := (sequence_values con)(''result_id'' \<mapsto> v)\<rparr>)"

text \<open>The casts with \<open>fill_null\<close> of the three measures (lines 385 to 393).\<close>

definition fill_measures :: "result_row \<Rightarrow> result_row" where
  "fill_measures r =
     r\<lparr>option_votes := Some (case option_votes r of None \<Rightarrow> 0 | Some v \<Rightarrow> v),
       total_votes := Some (case total_votes r of None \<Rightarrow> 0 | Some v \<Rightarrow> v),
       option_percent := Some (case option_percent r of None \<Rightarrow> ''0.0'' | Some t \<Rightarrow> t)\<rparr>"

text \<open>
  One call. The frame may be \<open>None\<close> or empty, and then nothing happens. Otherwise the
  rows get the identifiers \<open>next_id\<close>, \<open>next_id + 1\<close>, ... (the strict cast to \<open>Int32\<close>
  raises outside 32 bits), are appended to the table, and the advanced \<open>next_id\<close> is
  written to the sequence table (which raises when it does not fit the column) and
  returned. \<open>Inl\<close> is the exception that the function logs and raises again.
\<close>

definition save_results_to_duckdb ::
  "result_row list option \<Rightarrow> int \<Rightarrow> db \<Rightarrow> py_exception + (int \<times> db)" where
  "save_results_to_duckdb results_df next_id con =
     (case results_df of
        None \<Rightarrow> Inr (next_id, con)
      | Some rs \<Rightarrow>
          if rs = [] then Inr (next_id, con)
          else
            (let num_rows = length rs;
                 ids = map (\<lambda>i. next_id + int i) [0..<num_rows]
             in if \<not> list_all in_int32 ids then Inl ComputeError
                else
                  (let rs1 = map (\<lambda>(i, r). r\<lparr>result_id := IntV i\<rparr>) (zip ids rs);
                       rs2 = map fill_measures rs1;
                       con1 = con\<lparr>election_results := election_results con @ rs2\<rparr>;
                       next_id' = next_id + int num_rows
                   in if \<not> in_int32 next_id' then Inl ComputeError
                      else Inr (next_id', update_sequence next_id' con1))))"

text \<open>
  \<open>SELECT next_value FROM sequence_values WHERE name = 'result_id'\<close>, as a run reads it
  at its start (line 496).
\<close>

definition read_next_id :: "db \<Rightarrow> int option" where
  "read_next_id con = sequence_values con ''result_id''"

text \<open>Two batches of two and one rows, made from the rows of the example file.\<close>

definition example_row :: "string \<Rightarrow> int \<Rightarrow> result_row" where
  "example_row name votes =
     \<lparr>result_id = IntV (- 1), year = IntV 2020, election_date = StrV ''2020-11-03'',
      election_id = IntV 7, contest_id = IntV 3, contest_name = StrV ''Mayor'',
      precinct_id_cell = StrV ''01001'', ward = IntV 1, precinct = IntV 1,
      total_votes = Some 100, option_name = StrV name, option_votes = Some votes,
      option_percent = Some ''0.0''\<rparr>"

definition example_db :: db where
  "example_db = \<lparr>election_results = [], sequence_values = [''result_id'' \<mapsto> 1]\<rparr>"

section \<open>Facts about the text helpers\<close>

lemma below_ten: "n < 10 \<Longrightarrow> n \<in> set [0, 1, 2, 3, 4, 5, 6, 7, 8, 9 :: nat]"
  by simp arith

lemma digit_val_digit_char: "n < 10 \<Longrightarrow> digit_val (digit_char n) = n"
  using below_ten[of n] by (auto simp: digit_val_def digit_char_def)

lemma is_digit_digit_char: "n < 10 \<Longrightarrow> is_digit (digit_char n)"
  using below_ten[of n] by (auto simp: is_digit_def digit_char_def)

lemma str_nat_nonempty: "str_nat n \<noteq> []"
  by (subst str_nat.simps) simp

lemma str_nat_digits: "list_all is_digit (str_nat n)"
proof (induction n rule: str_nat.induct)
  case (1 n)
  show ?case
  proof (cases "n < 10")
    case True
    then show ?thesis by (subst str_nat.simps) (simp add: is_digit_digit_char)
  next
    case False
    with 1 show ?thesis by (subst str_nat.simps) (simp add: is_digit_digit_char)
  qed
qed

lemma nat_of_digits_snoc: "nat_of_digits (xs @ [c]) = 10 * nat_of_digits xs + digit_val c"
  by (simp add: nat_of_digits_def)

lemma nat_of_digits_str_nat: "nat_of_digits (str_nat n) = n"
proof (induction n rule: str_nat.induct)
  case (1 n)
  show ?case
  proof (cases "n < 10")
    case True
    then show ?thesis
      by (subst str_nat.simps) (simp add: nat_of_digits_def digit_val_digit_char)
  next
    case False
    with 1 show ?thesis
      by (subst str_nat.simps) (simp add: nat_of_digits_snoc digit_val_digit_char)
  qed
qed

lemma foldl_digits_zeros:
  "foldl (\<lambda>a c. 10 * a + digit_val c) 0 (replicate k CHR ''0'') = 0"
  by (induction k) (simp_all add: digit_val_def)

lemma nat_of_digits_zeros: "nat_of_digits (replicate k CHR ''0'' @ s) = nat_of_digits s"
  by (simp add: nat_of_digits_def foldl_digits_zeros)

lemma length_str_nat_le: "n < 10 ^ k \<Longrightarrow> 0 < k \<Longrightarrow> length (str_nat n) \<le> k"
proof (induction n arbitrary: k rule: str_nat.induct)
  case (1 n)
  show ?case
  proof (cases "n < 10")
    case True
    with 1(3) show ?thesis by (subst str_nat.simps) simp
  next
    case False
    obtain j where k: "k = Suc j" using 1(3) by (cases k) auto
    have "j \<noteq> 0"
    proof
      assume "j = 0"
      with 1(2) k have "n < 10" by simp
      with False show False by simp
    qed
    moreover have "n div 10 < 10 ^ j" using 1(2) k by (simp add: less_mult_imp_div_less mult.commute)
    ultimately have "length (str_nat (n div 10)) \<le> j" using 1(1)[OF False, of j] by simp
    then show ?thesis using False k by (subst str_nat.simps) simp
  qed
qed

lemma hd_str_nat_not_minus: "hd (str_nat n) \<noteq> CHR ''-''"
proof -
  have "is_digit (hd (str_nat n))"
    using str_nat_digits[of n] str_nat_nonempty[of n] by (cases "str_nat n") simp_all
  then show ?thesis by (auto simp: is_digit_def)
qed

lemma zfill_str_nat:
  "zfill w (str_nat n) = replicate (w - length (str_nat n)) CHR ''0'' @ str_nat n"
  by (simp add: zfill_def hd_str_nat_not_minus)

lemma length_zfill_str_nat: "length (str_nat n) \<le> w \<Longrightarrow> length (zfill w (str_nat n)) = w"
  by (simp add: zfill_str_nat)

lemma str_int_nonneg: "0 \<le> i \<Longrightarrow> str_int i = str_nat (nat i)"
  by (simp add: str_int_def)

text \<open>
  Claim C4. For every ward \<open>w\<close> in 0..99 and precinct \<open>p\<close> in 0..999 the identifier
  that \<open>create_precinct_id.py\<close> builds (ward padded to two digits, precinct padded to
  three) has exactly five characters, reading it back by the fixed widths gives \<open>(w, p)\<close>,
  and the expression of the boundary importer builds the same string from the texts of
  \<open>w\<close> and \<open>p\<close>.
\<close>

theorem canonical_id_roundtrip:
  assumes "0 \<le> w" and "w \<le> 99" and "0 \<le> p" and "p \<le> 999"
  shows "\<exists>s. precinct_id_expr (Some w) (Some p) = Some s \<and> length s = 5
           \<and> decompose_id s = (nat w, nat p)
           \<and> combine_ward_precinct (str_int w) (str_int p) = s"
proof -
  let ?a = "str_nat (nat w)" and ?b = "str_nat (nat p)"
  have la: "length ?a \<le> 2"
    using assms(2) length_str_nat_le[of "nat w" 2] by simp
  have lb: "length ?b \<le> 3"
    using assms(4) length_str_nat_le[of "nat p" 3] by simp
  let ?s = "zfill 2 ?a @ zfill 3 ?b"
  have e: "precinct_id_expr (Some w) (Some p) = Some ?s"
    using assms(1,3) by (simp add: precinct_id_expr_def str_int_nonneg)
  have l2: "length (zfill 2 ?a) = 2" using la by (rule length_zfill_str_nat)
  have l3: "length (zfill 3 ?b) = 3" using lb by (rule length_zfill_str_nat)
  have len: "length ?s = 5" using l2 l3 by simp
  have t: "take 2 ?s = zfill 2 ?a" using l2 by simp
  have d: "drop (length ?s - 3) ?s = zfill 3 ?b" using l2 len by simp
  have va: "nat_of_digits (zfill 2 ?a) = nat w"
    by (simp add: zfill_str_nat nat_of_digits_zeros nat_of_digits_str_nat)
  have vb: "nat_of_digits (zfill 3 ?b) = nat p"
    by (simp add: zfill_str_nat nat_of_digits_zeros nat_of_digits_str_nat)
  have dec: "decompose_id ?s = (nat w, nat p)"
    unfolding decompose_id_def t d va vb ..
  have c: "combine_ward_precinct (str_int w) (str_int p) = ?s"
    using assms(1,3) by (simp add: combine_ward_precinct_def pd_zfill_def str_int_nonneg zfill_str_nat)
  from e len dec c show ?thesis by blast
qed

theorem canonical_id_roundtrip_witness:
  "(0::int) \<le> 7 \<and> (7::int) \<le> 99 \<and> (0::int) \<le> 42 \<and> (42::int) \<le> 999
   \<and> precinct_id_expr (Some 7) (Some 42) = Some ''07042''
   \<and> length ''07042'' = 5 \<and> decompose_id ''07042'' = (7, 42)
   \<and> combine_ward_precinct (str_int 7) (str_int 42) = ''07042''"
proof -
  have v: "combine_ward_precinct (str_int 7) (str_int 42) = ''07042''"
    by (simp add: combine_ward_precinct_def pd_zfill_def str_int_def str_nat.simps digit_char_def)
  from canonical_id_roundtrip[of 7 42] v show ?thesis by auto
qed

section \<open>The boundary importer: identifier column, synthetic identifiers, duplicates\<close>

lemma precinct_id_field_simp:
  "precinct_id_field cols =
     (if ''precinct_id'' \<in> set cols then Some ''precinct_id''
      else if ''PRECINCT_ID'' \<in> set cols then Some ''PRECINCT_ID''
      else if ''precinct'' \<in> set cols then Some ''precinct''
      else if ''PRECINCT'' \<in> set cols then Some ''PRECINCT''
      else if ''ID'' \<in> set cols then Some ''ID'' else None)"
  by (simp add: precinct_id_field_def possible_fields_def)

text \<open>
  Claim C9, as amended. The branch that concatenates the padded ward and precinct columns
  is never taken, for any set of columns: the list of direct fields is looked at first and
  contains \<open>precinct\<close>. When both a \<open>ward\<close> and a \<open>precinct\<close> column are
  present, the direct field chosen is the first of \<open>precinct_id\<close>, \<open>PRECINCT_ID\<close>,
  \<open>precinct\<close> that the file has; it is \<open>precinct\<close> only when the two fields before
  it are absent. (\<open>check_duplicates\<close> in \<open>check_geojson_dups.py\<close> repeats the same
  statements.)
\<close>

theorem ward_precinct_fallback_unreachable:
  "id_source_of cols \<noteq> Inr Ward_And_Precinct
   \<and> (''ward'' \<in> set cols \<and> ''precinct'' \<in> set cols \<longrightarrow>
        id_source_of cols =
          Inr (Direct_Field (if ''precinct_id'' \<in> set cols then ''precinct_id''
                             else if ''PRECINCT_ID'' \<in> set cols then ''PRECINCT_ID''
                             else ''precinct'')))"
  by (simp add: id_source_of_def precinct_id_field_simp)

theorem ward_precinct_fallback_unreachable_witness:
  "id_source_of [''ward'', ''precinct'', ''geometry''] \<noteq> Inr Ward_And_Precinct
   \<and> ''ward'' \<in> set [''ward'', ''precinct'', ''geometry'']
   \<and> ''precinct'' \<in> set [''ward'', ''precinct'', ''geometry'']
   \<and> id_source_of [''ward'', ''precinct'', ''geometry''] = Inr (Direct_Field ''precinct'')"
  using ward_precinct_fallback_unreachable[of "[''ward'', ''precinct'', ''geometry'']"]
  by simp

text \<open>
  Claim C9 as first stated says that \<open>precinct\<close> is always the field selected when
  \<open>ward\<close> and \<open>precinct\<close> are present. A file that also has a \<open>precinct_id\<close>
  property selects \<open>precinct_id\<close>.
\<close>

theorem precinct_not_always_selected:
  "''ward'' \<in> set [''precinct_id'', ''ward'', ''precinct'', ''geometry'']
   \<and> ''precinct'' \<in> set [''precinct_id'', ''ward'', ''precinct'', ''geometry'']
   \<and> id_source_of [''precinct_id'', ''ward'', ''precinct'', ''geometry'']
       \<noteq> Inr (Direct_Field ''precinct'')
   \<and> id_source_of [''precinct_id'', ''ward'', ''precinct'', ''geometry'']
       = Inr (Direct_Field ''precinct_id'')"
  by (simp add: id_source_of_def precinct_id_field_simp)

lemma length_assign_generated [simp]: "length (assign_generated mk n ms ids) = length ids"
  by (induction mk n ms ids rule: assign_generated.induct) simp_all

lemma assign_generated_nth:
  "i < length ids \<Longrightarrow> length xs = length ids \<Longrightarrow>
   assign_generated mk n (map P ids) xs ! i =
     (if P (ids ! i) then mk (n + length (filter P (take i ids))) else xs ! i)"
proof (induction ids arbitrary: n xs i)
  case Nil
  then show ?case by simp
next
  case (Cons a ids)
  then obtain x xs' where xs: "xs = x # xs'" by (cases xs) auto
  show ?case
  proof (cases i)
    case 0
    then show ?thesis using xs by simp
  next
    case (Suc j)
    then have j: "j < length ids" "length xs' = length ids" using Cons.prems xs by auto
    show ?thesis using Cons.IH[OF j] Suc xs by simp
  qed
qed

lemma assign_generated_no_hit:
  "\<not> list_ex id (map P ids) \<Longrightarrow> length xs = length ids \<Longrightarrow> assign_generated mk n (map P ids) xs = xs"
proof (induction ids arbitrary: xs)
  case Nil then show ?case by simp
next
  case (Cons a ids)
  then obtain x xs' where xs: "xs = x # xs'" by (cases xs) auto
  with Cons show ?case by simp
qed

lemma repair_empty_zero_eq:
  "repair_empty_zero ids =
     assign_generated zero_id 1 (map (\<lambda>s. s = ''0'' \<or> s = ''00000'') ids)
       (assign_generated gen_id 1 (map (\<lambda>s. s = []) ids) ids)"
  by (simp add: repair_empty_zero_def empty_ids_def zero_ids_def Let_def assign_generated_no_hit)

lemma length_repair_empty_zero [simp]: "length (repair_empty_zero ids) = length ids"
  by (simp add: repair_empty_zero_eq)

lemma repair_empty_zero_nth:
  assumes "i < length ids"
  shows "repair_empty_zero ids ! i =
     (if ids ! i = [] then gen_id (Suc (length (filter (\<lambda>s. s = []) (take i ids))))
      else if ids ! i = ''0'' \<or> ids ! i = ''00000''
        then zero_id (Suc (length (filter (\<lambda>s. s = ''0'' \<or> s = ''00000'') (take i ids))))
      else ids ! i)"
  using assms
  by (simp add: repair_empty_zero_eq
        assign_generated_nth[where P = "\<lambda>s. s = ''0'' \<or> s = ''00000''"]
        assign_generated_nth[where P = "\<lambda>s. s = []"])


lemma zeros_digits: "list_all is_digit (replicate k CHR ''0'')"
  by (induction k) (simp_all add: is_digit_def)

lemma format_03d_digits: "list_all is_digit (format_03d n)"
  by (simp add: format_03d_def str_nat_digits zeros_digits)

lemma format_03d_value: "nat_of_digits (format_03d n) = n"
  by (simp add: format_03d_def nat_of_digits_zeros nat_of_digits_str_nat)

lemma format_03d_length: "3 \<le> length (format_03d n)"
  by (simp add: format_03d_def)

lemma format_03d_inj: "format_03d m = format_03d n \<Longrightarrow> m = n"
  by (metis format_03d_value)

lemma gen_id_inj: "gen_id m = gen_id n \<longleftrightarrow> m = n"
  by (auto simp: gen_id_def dest: format_03d_inj)

lemma zero_id_inj: "zero_id m = zero_id n \<longleftrightarrow> m = n"
  by (auto simp: zero_id_def dest: format_03d_inj)

lemma gen_id_not_digits: "\<not> list_all is_digit (gen_id m)"
  by (simp add: gen_id_def is_digit_def)

lemma zero_id_not_digits: "\<not> list_all is_digit (zero_id m)"
  by (simp add: zero_id_def is_digit_def)

lemma gen_id_not_zero_id: "gen_id m \<noteq> zero_id n"
  by (simp add: gen_id_def zero_id_def)

lemma gen_id_not_degenerate: "gen_id m \<noteq> []" "gen_id m \<noteq> ''0''" "gen_id m \<noteq> ''00000''"
  by (simp_all add: gen_id_def)

lemma zero_id_not_degenerate: "zero_id m \<noteq> []" "zero_id m \<noteq> ''0''" "zero_id m \<noteq> ''00000''"
  by (simp_all add: zero_id_def)

lemma length_duplicated_from [simp]: "length (duplicated_from seen xs) = length xs"
  by (induction xs arbitrary: seen) simp_all















lemma pid_set_pid [simp]: "pid (set_pid v r) = v"
  by (simp add: pid_def set_pid_def)

lemma geometry_set_pid [simp]: "geometry_wkt (set_pid v r) = geometry_wkt r"
  by (simp add: set_pid_def)

lemma length_repaired_rows [simp]: "length (repaired_rows rs) = length rs"
  by (simp add: repaired_rows_def)









lemma repair_example_ids:
  "repair_empty_zero ['''', ''00000'', ''00000'', ''01001'', ''01001'']
     = [''GEN001'', ''ZERO001'', ''ZERO002'', ''01001'', ''01001'']"
  by code_simp



text \<open>
  Claim C10. A repaired empty identifier is \<open>GEN\<close> followed by the counter written with at
  least three digits, a repaired zero identifier is \<open>ZERO\<close> followed by the same form. No
  \<open>GEN\<close> identifier equals a \<open>ZERO\<close> identifier, neither equals a string of digits (so
  neither equals a five digit identifier), different counter values give different
  identifiers, and within one frame the identifiers given to two empty rows differ, as do
  those given to two zero rows.
\<close>

theorem synthetic_ids_disjoint:
  "take 3 (gen_id m) = ''GEN'' \<and> drop 3 (gen_id m) = format_03d m
   \<and> take 4 (zero_id n) = ''ZERO'' \<and> drop 4 (zero_id n) = format_03d n
   \<and> list_all is_digit (format_03d m) \<and> 3 \<le> length (format_03d m)
   \<and> nat_of_digits (format_03d m) = m
   \<and> gen_id m \<noteq> zero_id n
   \<and> (list_all is_digit s \<longrightarrow> gen_id m \<noteq> s \<and> zero_id n \<noteq> s)
   \<and> (gen_id m = gen_id n \<longleftrightarrow> m = n) \<and> (zero_id m = zero_id n \<longleftrightarrow> m = n)
   \<and> (\<forall>i<length ids. ids ! i = [] \<longrightarrow>
         repair_empty_zero ids ! i = gen_id (Suc (length (filter (\<lambda>s. s = []) (take i ids)))))
   \<and> (\<forall>i<length ids. ids ! i = ''0'' \<or> ids ! i = ''00000'' \<longrightarrow>
         repair_empty_zero ids ! i =
           zero_id (Suc (length (filter (\<lambda>s. s = ''0'' \<or> s = ''00000'') (take i ids)))))
   \<and> (\<forall>i j. i < j \<and> j < length ids \<and> ids ! i = [] \<and> ids ! j = [] \<longrightarrow>
         repair_empty_zero ids ! i \<noteq> repair_empty_zero ids ! j)
   \<and> (\<forall>i j. i < j \<and> j < length ids \<and> (ids ! i = ''0'' \<or> ids ! i = ''00000'')
            \<and> (ids ! j = ''0'' \<or> ids ! j = ''00000'') \<longrightarrow>
         repair_empty_zero ids ! i \<noteq> repair_empty_zero ids ! j)"
proof -
  have form: "take 3 (gen_id m) = ''GEN''" "drop 3 (gen_id m) = format_03d m"
      "take 4 (zero_id n) = ''ZERO''" "drop 4 (zero_id n) = format_03d n"
    by (simp_all add: gen_id_def zero_id_def)
  have digits: "list_all is_digit s \<longrightarrow> gen_id m \<noteq> s \<and> zero_id n \<noteq> s"
    using gen_id_not_digits[of m] zero_id_not_digits[of n] by auto
  have count_mono:
    "length (filter P (take i ids)) < length (filter P (take j ids))"
    if "i < j" "j < length ids" "P (ids ! i)" for P :: "string \<Rightarrow> bool" and i j
  proof -
    have "take j ids = take i ids @ ids ! i # take (j - Suc i) (drop (Suc i) ids)"
      using that(1,2)
      by (metis Suc_leI add_diff_inverse_nat id_take_nth_drop less_imp_le_nat less_trans
            not_less_eq_eq take_add take_Suc_conv_app_nth append.assoc append_Cons append_Nil
            le_add_diff_inverse)
    then show ?thesis using that(3) by simp
  qed
  have gens: "repair_empty_zero ids ! i \<noteq> repair_empty_zero ids ! j"
    if "i < j \<and> j < length ids \<and> ids ! i = [] \<and> ids ! j = []" for i j
  proof -
    from that have "i < length ids" by simp
    with that count_mono[of i j "\<lambda>s. s = []"] show ?thesis
      by (simp add: repair_empty_zero_nth gen_id_inj)
  qed
  have zeros: "repair_empty_zero ids ! i \<noteq> repair_empty_zero ids ! j"
    if "i < j \<and> j < length ids \<and> (ids ! i = ''0'' \<or> ids ! i = ''00000'')
        \<and> (ids ! j = ''0'' \<or> ids ! j = ''00000'')" for i j
  proof -
    from that have "i < length ids" by simp
    with that count_mono[of i j "\<lambda>s. s = ''0'' \<or> s = ''00000''"] show ?thesis
      by (auto simp add: repair_empty_zero_nth zero_id_inj)
  qed
  have e: "\<forall>i<length ids. ids ! i = [] \<longrightarrow>
         repair_empty_zero ids ! i = gen_id (Suc (length (filter (\<lambda>s. s = []) (take i ids))))"
    by (simp add: repair_empty_zero_nth)
  have z: "\<forall>i<length ids. ids ! i = ''0'' \<or> ids ! i = ''00000'' \<longrightarrow>
         repair_empty_zero ids ! i =
           zero_id (Suc (length (filter (\<lambda>s. s = ''0'' \<or> s = ''00000'') (take i ids))))"
    by (auto simp add: repair_empty_zero_nth)
  show ?thesis
    using form digits gens zeros e z format_03d_digits[of m] format_03d_length[of m]
      format_03d_value[of m] gen_id_not_zero_id[of m n] gen_id_inj[of m n] zero_id_inj[of m n]
    by blast
qed

theorem synthetic_ids_disjoint_witness:
  "gen_id 1 = ''GEN001'' \<and> zero_id 2 = ''ZERO002'' \<and> gen_id 1 \<noteq> zero_id 2
   \<and> list_all is_digit ''01001'' \<and> gen_id 1 \<noteq> ''01001'' \<and> zero_id 2 \<noteq> ''01001''
   \<and> (1::nat) < 2 \<and> (2::nat) < length ['''', ''00000'', ''00000'', ''01001'', ''01001'']
   \<and> repair_empty_zero ['''', ''00000'', ''00000'', ''01001'', ''01001''] ! 1
       \<noteq> repair_empty_zero ['''', ''00000'', ''00000'', ''01001'', ''01001''] ! 2"
proof -
  have g: "gen_id 1 = ''GEN001''" "zero_id 2 = ''ZERO002''" "list_all is_digit ''01001''"
    by code_simp+
  have n: "['''', ''00000'', ''00000'', ''01001'', ''01001''] ! 1 = ''00000''"
      "['''', ''00000'', ''00000'', ''01001'', ''01001''] ! 2 = ''00000''"
      "(2::nat) < length ['''', ''00000'', ''00000'', ''01001'', ''01001'']"
    by simp_all
  from synthetic_ids_disjoint[of 1 2 "''01001''" "['''', ''00000'', ''00000'', ''01001'', ''01001'']"]
  have d: "gen_id 1 \<noteq> zero_id 2"
    and k: "list_all is_digit ''01001'' \<longrightarrow> gen_id 1 \<noteq> ''01001'' \<and> zero_id 2 \<noteq> ''01001''"
    and z: "\<forall>i j. i < j \<and> j < length ['''', ''00000'', ''00000'', ''01001'', ''01001'']
            \<and> (['''', ''00000'', ''00000'', ''01001'', ''01001''] ! i = ''0''
                \<or> ['''', ''00000'', ''00000'', ''01001'', ''01001''] ! i = ''00000'')
            \<and> (['''', ''00000'', ''00000'', ''01001'', ''01001''] ! j = ''0''
                \<or> ['''', ''00000'', ''00000'', ''01001'', ''01001''] ! j = ''00000'') \<longrightarrow>
         repair_empty_zero ['''', ''00000'', ''00000'', ''01001'', ''01001''] ! i
           \<noteq> repair_empty_zero ['''', ''00000'', ''00000'', ''01001'', ''01001''] ! j"
    by blast+
  from z[rule_format, of 1 2] n
  have "repair_empty_zero ['''', ''00000'', ''00000'', ''01001'', ''01001''] ! 1
       \<noteq> repair_empty_zero ['''', ''00000'', ''00000'', ''01001'', ''01001''] ! 2"
    by simp
  with g d k show ?thesis by simp
qed

section \<open>The boundary importer: width normalisation\<close>














section \<open>The boundary importer: importing a vintage twice\<close>




lemma length_build_rows [simp]: "length (build_rows s y z rs) = length rs"
  by (induction rs arbitrary: s) simp_all


















section \<open>\<open>process_csv_file\<close>: rejected files\<close>


lemma option_cols_of_iff:
  "c \<in> set (option_cols_of cols) \<longleftrightarrow>
     c \<in> set cols \<and> c \<notin> set reserved_columns \<and> \<not> endswith c ''Percent''"
  by (auto simp: option_cols_of_def)



lemma select_columns: "select names d = Inr d' \<Longrightarrow> columns d' = names"
  by (auto simp: select_def split: option.splits)

lemma set_column_columns: "set (columns (set_column name vals d)) = insert name (set (columns d))"
  by (auto simp: set_column_def)

lemma turnout_frames_fails: "\<exists>e. turnout_frames d = Inl e"
proof (cases "select [''precinct_id'', ''ward'', ''precinct'', ''ballots''] d")
  case (Inl e)
  then show ?thesis
    by (cases "select [''precinct_id'', ''ward'', ''precinct'', ''registered''] d")
       (simp_all add: turnout_frames_def then_do_def with_columns_def split: sum.splits)
next
  case (Inr ballots_df)
  then have "columns ballots_df = [''precinct_id'', ''ward'', ''precinct'', ''ballots'']"
    by (rule select_columns)
  then have "\<exists>e. with_columns
                [(Lit (StrV ''ballots''), ''option_name''),
                 (Col ''ballots'', ''option_votes''),
                 (Col ''turnout'', ''option_percent''),
                 (Lit Null, ''total_votes'')] ballots_df = Inl e"
    by (simp add: with_columns_def)
  with Inr show ?thesis
    by (cases "select [''precinct_id'', ''ward'', ''precinct'', ''registered''] d")
       (auto simp add: turnout_frames_def then_do_def split: sum.splits)
qed

lemma turnout_files_always_rejected:
  "''registered'' \<in> set (columns d) \<Longrightarrow> ''turnout'' \<in> set (columns d) \<Longrightarrow>
   \<exists>e. process_csv_file d ctx = Inl e"
  using turnout_frames_fails[of d]
  by (auto simp: process_csv_file_def lift_failure_def then_do_def)

text \<open>
  Claim C1 describes two rows per input row for a turnout file. On the one-row file with
  \<open>registered = 1000\<close>, \<open>ballots = 400\<close>, \<open>turnout = 40.0\<close> and precinct \<open>01001\<close> the
  function returns no rows: \<open>ballots_df\<close> is selected without the \<open>turnout\<close> column and
  the next statement refers to that column, so Polars raises, the outer handler catches
  the exception and the function returns \<open>None\<close>. The lemma before shows this for every
  turnout file.
\<close>

theorem turnout_file_rejected:
  "''registered'' \<in> set (columns turnout_example) \<and> ''turnout'' \<in> set (columns turnout_example)
   \<and> length (rows turnout_example) = 1
   \<and> process_csv_file turnout_example example_context
        = Inl (ProcessingFailed (ColumnNotFoundError ''turnout''))"
  by code_simp

end
